theory Spec2Isabelle
  imports Main "HOL-Library.Word"
begin

section \<open>The guest bridge and its waPC collaborators\<close>

text \<open>
  The bridge of \<^verbatim>\<open>internal/wasm_guest.go\<close> owns no algorithm of its own: every step
  is a call into a collaborator (the file system, the wazero engine, the waPC module,
  pool and instance) or a log line. The collaborators are therefore an interface
  record of state transformers over a world \<open>'w\<close>, and each bridge function returns,
  next to its Go results, the calls and log lines it made, in program order, and the
  world those calls left behind.
\<close>

type_synonym bytes = "8 word list"

text \<open>\<^verbatim>\<open>time.Duration\<close> counts nanoseconds.\<close>

type_synonym Duration = int

definition Millisecond :: Duration where
  "Millisecond = 1000000"

text \<open>Go pointers and interface values (module, pool, instance) are references.\<close>

type_synonym ref = nat

datatype event =
    Printf string
  | Call_ReadFile string
  | Call_New bytes
  | Call_NewPool ref nat
  | Call_Get ref Duration
  | Call_Invoke ref string bytes
  | Call_Return ref ref
  | Call_PoolClose ref
  | Call_ModuleClose ref

fun is_Printf :: "event \<Rightarrow> bool" where
  "is_Printf (Printf _) = True"
| "is_Printf _ = False"

fun is_Return :: "event \<Rightarrow> bool" where
  "is_Return (Call_Return _ _) = True"
| "is_Return _ = False"

fun is_Invoke :: "event \<Rightarrow> bool" where
  "is_Invoke (Call_Invoke _ _ _) = True"
| "is_Invoke _ = False"

fun is_Get :: "event \<Rightarrow> bool" where
  "is_Get (Call_Get _ _) = True"
| "is_Get _ = False"

fun is_NewPool :: "event \<Rightarrow> bool" where
  "is_NewPool (Call_NewPool _ _) = True"
| "is_NewPool _ = False"

text \<open>The calls of a trace are its events other than log lines.\<close>

definition calls :: "event list \<Rightarrow> event list" where
  "calls tr = filter (\<lambda>e. \<not> is_Printf e) tr"

text \<open>
  A Go call returning \<^verbatim>\<open>(T, error)\<close> is a sum (\<open>Inl\<close> the error), one returning
  \<^verbatim>\<open>error\<close> alone an option (\<open>None\<close> is \<^verbatim>\<open>nil\<close>). \<open>'h\<close> is the host callback
  \<^verbatim>\<open>proxy.FabricCall\<close>, \<open>'e\<close> the values of Go's \<^verbatim>\<open>error\<close> interface. The
  timeout of \<^verbatim>\<open>Get\<close> and the size of \<^verbatim>\<open>NewPool\<close> (a \<^verbatim>\<open>uint64\<close>, here always the
  literal ten) are passed as they are; the contexts handed to the calls are never
  cancelled and are left out.
\<close>

record ('w, 'h, 'e) wapc =
  ioutil_ReadFile :: "string \<Rightarrow> 'w \<Rightarrow> ('e + bytes) \<times> 'w"
  engine_New :: "'h \<Rightarrow> bytes \<Rightarrow> 'w \<Rightarrow> ('e + ref) \<times> 'w"
  wapc_NewPool :: "ref \<Rightarrow> nat \<Rightarrow> 'w \<Rightarrow> ('e + ref) \<times> 'w"
  Pool_Get :: "ref \<Rightarrow> Duration \<Rightarrow> 'w \<Rightarrow> ('e + ref) \<times> 'w"
  Pool_Return :: "ref \<Rightarrow> ref \<Rightarrow> 'w \<Rightarrow> 'e option \<times> 'w"
  Pool_Close :: "ref \<Rightarrow> 'w \<Rightarrow> 'w"
  Instance_Invoke :: "ref \<Rightarrow> string \<Rightarrow> bytes \<Rightarrow> 'w \<Rightarrow> ('e + bytes) \<times> 'w"
  Module_Close :: "ref \<Rightarrow> 'w \<Rightarrow> 'w"
  error_Error :: "'e \<Rightarrow> string"

text \<open>
  \<^verbatim>\<open>type WasmGuest struct\<close>. The fields \<^verbatim>\<open>wapcEngine\<close> and \<^verbatim>\<open>context\<close> are
  written once by the constructor and only \<^verbatim>\<open>context\<close> is read again, as the argument
  of the module's \<^verbatim>\<open>Close\<close>; the context is never cancelled, so both are left out.
\<close>

record WasmGuest =
  wapcModule :: ref
  wapcPool :: ref

subsection \<open>InvokeWasmOperation\<close>

text \<open>
  The function has the named results \<^verbatim>\<open>(result []byte, err error)\<close>. A
  \<^verbatim>\<open>return a, b\<close> statement stores \<open>(a, b)\<close> in them and then runs the deferred
  closure, which may assign to them; the caller receives what they hold afterwards.

  The deferred closure logs, calls \<^verbatim>\<open>wg.wapcPool.Return(wapcInstance)\<close>, assigns the
  outcome to \<^verbatim>\<open>err\<close> and logs the outcome when it is an error.
\<close>

definition deferred_Return ::
  "('w, 'h, 'e) wapc \<Rightarrow> WasmGuest \<Rightarrow> ref \<Rightarrow> bytes option \<times> 'e option \<Rightarrow> 'w
     \<Rightarrow> (bytes option \<times> 'e option) \<times> event list \<times> 'w" where
  "deferred_Return E wg wapcInstance named w =
     (case Pool_Return E (wapcPool wg) wapcInstance w of
        (err, w') \<Rightarrow>
          ((fst named, err),
           [Printf ''[host] Returning waPC Instance'',
            Call_Return (wapcPool wg) wapcInstance]
           @ (case err of
                None \<Rightarrow> []
              | Some e \<Rightarrow> [Printf (''[host] error returning waPC instance: '' @ error_Error E e)]),
           w'))"

definition InvokeWasmOperation ::
  "('w, 'h, 'e) wapc \<Rightarrow> WasmGuest \<Rightarrow> string \<Rightarrow> bytes \<Rightarrow> 'w
     \<Rightarrow> (bytes option \<times> 'e option) \<times> event list \<times> 'w" where
  "InvokeWasmOperation E wg operation payload w =
     (case Pool_Get E (wapcPool wg) (10 * Millisecond) w of
        (Inl err, w1) \<Rightarrow>
          ((None, Some err),
           [Printf ''[host] Getting waPC Instance'',
            Call_Get (wapcPool wg) (10 * Millisecond),
            Printf (''[host] error getting waPC instance: '' @ error_Error E err)],
           w1)
      | (Inr wapcInstance, w1) \<Rightarrow>
          (case Instance_Invoke E wapcInstance operation payload w1 of
             (Inl err, w2) \<Rightarrow>
               (case deferred_Return E wg wapcInstance (None, Some err) w2 of
                  (named, tr, w3) \<Rightarrow>
                    (named,
                     [Printf ''[host] Getting waPC Instance'',
                      Call_Get (wapcPool wg) (10 * Millisecond),
                      Printf (''[host] Invoking operation '' @ operation),
                      Call_Invoke wapcInstance operation payload,
                      Printf (''[host] error invoking transaction: '' @ error_Error E err)]
                     @ tr,
                     w3))
           | (Inr result, w2) \<Rightarrow>
               (case deferred_Return E wg wapcInstance (Some result, None) w2 of
                  (named, tr, w3) \<Rightarrow>
                    (named,
                     [Printf ''[host] Getting waPC Instance'',
                      Call_Get (wapcPool wg) (10 * Millisecond),
                      Printf (''[host] Invoking operation '' @ operation),
                      Call_Invoke wapcInstance operation payload]
                     @ tr,
                     w3))))"

text \<open>The three components of what a bridge function yields.\<close>

definition results :: "'a \<times> event list \<times> 'w \<Rightarrow> 'a" where
  "results r = fst r"

definition trace :: "'a \<times> event list \<times> 'w \<Rightarrow> event list" where
  "trace r = fst (snd r)"

definition world :: "'a \<times> event list \<times> 'w \<Rightarrow> 'w" where
  "world r = snd (snd r)"

subsection \<open>NewWasmGuest\<close>

text \<open>
  The constructor reads the file, has the engine compile it with the host callback bound
  (the \<^verbatim>\<open>ModuleConfig\<close> of logger and standard streams is a constant), and builds a
  pool from the module. The size of the pool is the literal \<^verbatim>\<open>10\<close>; the function has
  no parameter for it. Each failure returns \<^verbatim>\<open>nil, err\<close> at once.
\<close>

definition NewWasmGuest ::
  "('w, 'h, 'e) wapc \<Rightarrow> string \<Rightarrow> 'h \<Rightarrow> 'w \<Rightarrow> ('e + WasmGuest) \<times> event list \<times> 'w" where
  "NewWasmGuest E wasmFile FabricCall w =
     (case ioutil_ReadFile E wasmFile w of
        (Inl err, w1) \<Rightarrow> (Inl err, [Call_ReadFile wasmFile], w1)
      | (Inr wasmBytes, w1) \<Rightarrow>
          (case engine_New E FabricCall wasmBytes w1 of
             (Inl err, w2) \<Rightarrow>
               (Inl err, [Call_ReadFile wasmFile, Call_New wasmBytes], w2)
           | (Inr module, w2) \<Rightarrow>
               (case wapc_NewPool E module 10 w2 of
                  (Inl err, w3) \<Rightarrow>
                    (Inl err,
                     [Call_ReadFile wasmFile, Call_New wasmBytes, Call_NewPool module 10],
                     w3)
                | (Inr pool, w3) \<Rightarrow>
                    (Inr \<lparr>wapcModule = module, wapcPool = pool\<rparr>,
                     [Call_ReadFile wasmFile, Call_New wasmBytes, Call_NewPool module 10],
                     w3))))"

subsection \<open>Close\<close>

definition Close :: "('w, 'h, 'e) wapc \<Rightarrow> WasmGuest \<Rightarrow> 'w \<Rightarrow> unit \<times> event list \<times> 'w" where
  "Close E wg w =
     ((),
      [Printf ''[host] Closing waPC Pool'',
       Call_PoolClose (wapcPool wg),
       Printf ''[host] Closing waPC Module'',
       Call_ModuleClose (wapcModule wg)],
      Module_Close E (wapcModule wg) (Pool_Close E (wapcPool wg) w))"

text \<open>A caller that issues one request after the other on the same bridge.\<close>

fun invoke_all ::
  "('w, 'h, 'e) wapc \<Rightarrow> WasmGuest \<Rightarrow> (string \<times> bytes) list \<Rightarrow> 'w
     \<Rightarrow> (bytes option \<times> 'e option) list \<times> event list \<times> 'w" where
  "invoke_all E wg [] w = ([], [], w)"
| "invoke_all E wg ((operation, payload) # reqs) w =
     (case InvokeWasmOperation E wg operation payload w of
        (r, tr, w1) \<Rightarrow>
          (case invoke_all E wg reqs w1 of
             (rs, tr', w2) \<Rightarrow> (r # rs, tr @ tr', w2)))"

section \<open>The collaborators as the specification describes them\<close>

text \<open>
  The waPC library (\<^verbatim>\<open>github.com/wapc/wapc-go\<close>: module, pool, instance) and the wazero
  engine are dependencies of the repository; their code is not part of it. Where a
  property depends on what they do, they are modelled from the specification's
  sections 3, 4.2 and 7.
\<close>

text \<open>
  Modelled from the spec: the failure taxonomy of section 7, the values of Go's
  \<^verbatim>\<open>error\<close> that the collaborators report. \<open>ReadError\<close> is the failed file read,
  which the specification leaves to the storage layer.
\<close>

datatype error =
    ReadError string
  | LoadError
  | PoolInitError
  | TimeoutError
  | InvocationError string string
  | ReleaseError
  | ClosedError

fun error_string :: "error \<Rightarrow> string" where
  "error_string (ReadError f) = ''open '' @ f @ '': no such file or directory''"
| "error_string LoadError = ''load error''"
| "error_string PoolInitError = ''pool init error''"
| "error_string TimeoutError = ''timeout error''"
| "error_string (InvocationError operation cause) =
     ''invocation error: '' @ operation @ '': '' @ cause"
| "error_string ReleaseError = ''release error''"
| "error_string ClosedError = ''closed error''"

text \<open>
  Modelled from the spec: the guest program a module is compiled from, sections 3 and
  6. It answers a named operation on a payload with a result or the cause of its
  failure; \<open>None\<close> where it does not know the operation.
\<close>

type_synonym guest = "string \<Rightarrow> bytes \<Rightarrow> (string + bytes) option"

text \<open>
  Modelled from the spec: the Instance Pool (\<^verbatim>\<open>wapc.Pool\<close>), section 3: a capacity fixed
  at construction, the available instances, the instances checked out, and whether the
  pool has been closed.
\<close>

record pool =
  capacity :: nat
  available :: "ref list"
  checked_out :: "ref list"
  closed :: bool

text \<open>
  Modelled from the spec: the state of the collaborators (storage, engine, modules,
  instances, pools), none of which is code of the repository: the files on disk, the
  live modules and instances (each with the program it runs), the pools, the next fresh
  reference, and how many more instances the engine is able to instantiate. A reference
  that \<^verbatim>\<open>NewPool\<close> has not handed out names the pool \<open>no_pool\<close>.
\<close>

record world_state =
  files :: "string \<Rightarrow> bytes option"
  modules :: "ref \<Rightarrow> guest option"
  instances :: "ref \<Rightarrow> guest option"
  pools :: "ref \<Rightarrow> pool"
  next_ref :: ref
  instantiable :: nat

definition no_pool :: pool where
  "no_pool = \<lparr>capacity = 0, available = [], checked_out = [], closed = True\<rparr>"

text \<open>
  Modelled from the spec: reading the bytecode from storage (\<^verbatim>\<open>ioutil.ReadFile\<close>), an
  external collaborator of section 1: the bytes of the file, or an error when there is
  no such file.
\<close>

definition spec_ReadFile :: "string \<Rightarrow> world_state \<Rightarrow> (error + bytes) \<times> world_state" where
  "spec_ReadFile f w =
     (case files w f of
        None \<Rightarrow> (Inl (ReadError f), w)
      | Some b \<Rightarrow> (Inr b, w))"

text \<open>
  Modelled from the spec: the Engine Handle's compile step (\<^verbatim>\<open>engine.New\<close>), section
  4.1: \<open>LoadError\<close> if the bytecode is malformed or compilation fails, else a Loaded
  Module. What the engine accepts is the parameter \<open>compile\<close>; the host callback
  it binds is opaque here, a value of type \<open>unit\<close>.
\<close>

definition spec_New ::
  "(bytes \<Rightarrow> guest option) \<Rightarrow> unit \<Rightarrow> bytes \<Rightarrow> world_state \<Rightarrow> (error + ref) \<times> world_state" where
  "spec_New compile h b w =
     (case compile b of
        None \<Rightarrow> (Inl LoadError, w)
      | Some g \<Rightarrow>
          (Inr (next_ref w),
           w\<lparr>modules := (modules w)(next_ref w \<mapsto> g), next_ref := Suc (next_ref w)\<rparr>))"

text \<open>
  Modelled from the spec: instantiating a module (\<^verbatim>\<open>Module.Instantiate\<close>). It fails
  when the module is not live or the engine can instantiate no more.
\<close>

definition spec_Instantiate :: "ref \<Rightarrow> world_state \<Rightarrow> ref option \<times> world_state" where
  "spec_Instantiate m w =
     (case modules w m of
        None \<Rightarrow> (None, w)
      | Some g \<Rightarrow>
          (if instantiable w = 0 then (None, w)
           else (Some (next_ref w),
                 w\<lparr>instances := (instances w)(next_ref w \<mapsto> g),
                   next_ref := Suc (next_ref w),
                   instantiable := instantiable w - 1\<rparr>)))"

text \<open>
  Modelled from the spec: tearing an instance down (\<^verbatim>\<open>Instance.Close\<close>), section 4.2:
  it is live no longer.
\<close>

definition teardown :: "ref \<Rightarrow> world_state \<Rightarrow> world_state" where
  "teardown i w = w\<lparr>instances := (instances w)(i := None)\<rparr>"

text \<open>
  Modelled from the spec: \<^verbatim>\<open>new(module, capacity)\<close> of section 4.2, the body of
  \<^verbatim>\<open>wapc.NewPool\<close>: it eagerly instantiates \<open>capacity\<close> instances; if any single
  instantiation fails the whole construction fails and the instances already created in
  this attempt are released.
\<close>

fun instantiate_all :: "ref \<Rightarrow> nat \<Rightarrow> world_state \<Rightarrow> ref list option \<times> world_state" where
  "instantiate_all m 0 w = (Some [], w)"
| "instantiate_all m (Suc n) w =
     (case spec_Instantiate m w of
        (None, w1) \<Rightarrow> (None, w1)
      | (Some i, w1) \<Rightarrow>
          (case instantiate_all m n w1 of
             (None, w2) \<Rightarrow> (None, teardown i w2)
           | (Some is, w2) \<Rightarrow> (Some (i # is), w2)))"

text \<open>
  Modelled from the spec: \<^verbatim>\<open>wapc.NewPool\<close>: \<open>PoolInitError\<close> if any instance fails to
  instantiate (section 4.1), else a pool of the given capacity with all its instances
  available.
\<close>

definition spec_NewPool :: "ref \<Rightarrow> nat \<Rightarrow> world_state \<Rightarrow> (error + ref) \<times> world_state" where
  "spec_NewPool m n w =
     (case instantiate_all m n w of
        (None, w1) \<Rightarrow> (Inl PoolInitError, w1)
      | (Some is, w1) \<Rightarrow>
          (Inr (next_ref w1),
           w1\<lparr>pools := (pools w1)
                 (next_ref w1 :=
                    \<lparr>capacity = n, available = is, checked_out = [], closed = False\<rparr>),
              next_ref := Suc (next_ref w1)\<rparr>))"

text \<open>
  Modelled from the spec: \<^verbatim>\<open>acquire(timeout)\<close> of section 4.2 (\<^verbatim>\<open>Pool.Get\<close>). After
  close it fails immediately with \<open>ClosedError\<close>. Otherwise it hands out an available
  instance; with none available and no other caller to release one (the bridge
  functions here run one at a time) the timeout elapses and it fails with
  \<open>TimeoutError\<close>.
\<close>

definition spec_Get :: "ref \<Rightarrow> Duration \<Rightarrow> world_state \<Rightarrow> (error + ref) \<times> world_state" where
  "spec_Get p timeout w =
     (if closed (pools w p) then (Inl ClosedError, w)
      else
        (case available (pools w p) of
           [] \<Rightarrow> (Inl TimeoutError, w)
         | i # rest \<Rightarrow>
             (Inr i,
              w\<lparr>pools := (pools w)
                   (p := (pools w p)\<lparr>available := rest,
                                     checked_out := i # checked_out (pools w p)\<rparr>)\<rparr>)))"

text \<open>
  Modelled from the spec: \<^verbatim>\<open>release(instance)\<close> of section 4.2 (\<^verbatim>\<open>Pool.Return\<close>).
  Releasing an instance that is not checked out is reported. A checked-out instance goes
  back to the available set, or is torn down when the pool has been closed meanwhile.
\<close>

definition spec_Return :: "ref \<Rightarrow> ref \<Rightarrow> world_state \<Rightarrow> error option \<times> world_state" where
  "spec_Return p i w =
     (if i \<notin> set (checked_out (pools w p)) then (Some ReleaseError, w)
      else if closed (pools w p) then
        (None,
         teardown i
           (w\<lparr>pools := (pools w)
                 (p := (pools w p)\<lparr>checked_out := remove1 i (checked_out (pools w p))\<rparr>)\<rparr>))
      else
        (None,
         w\<lparr>pools := (pools w)
              (p := (pools w p)\<lparr>available := available (pools w p) @ [i],
                                checked_out := remove1 i (checked_out (pools w p))\<rparr>)\<rparr>))"

text \<open>
  Modelled from the spec: \<^verbatim>\<open>close()\<close> of section 4.2 (\<^verbatim>\<open>Pool.Close\<close>): the pool
  becomes closed and all currently available instances are torn down; the instances
  checked out stay so until they are released.
\<close>

definition spec_PoolClose :: "ref \<Rightarrow> world_state \<Rightarrow> world_state" where
  "spec_PoolClose p w =
     fold teardown (available (pools w p))
       (w\<lparr>pools := (pools w)(p := (pools w p)\<lparr>available := [], closed := True\<rparr>)\<rparr>)"

text \<open>
  Modelled from the spec: executing a named operation on an Execution Instance
  (\<^verbatim>\<open>Instance.Invoke\<close>), sections 3 and 7: \<open>InvocationError\<close> with the operation name
  and the cause if the operation is unknown to the guest or its execution fails,
  \<open>ClosedError\<close> on an instance that has been torn down.
\<close>

definition spec_Invoke ::
  "ref \<Rightarrow> string \<Rightarrow> bytes \<Rightarrow> world_state \<Rightarrow> (error + bytes) \<times> world_state" where
  "spec_Invoke i operation payload w =
     (case instances w i of
        None \<Rightarrow> (Inl ClosedError, w)
      | Some g \<Rightarrow>
          (case g operation payload of
             None \<Rightarrow> (Inl (InvocationError operation ''unknown operation''), w)
           | Some (Inl cause) \<Rightarrow> (Inl (InvocationError operation cause), w)
           | Some (Inr result) \<Rightarrow> (Inr result, w)))"

text \<open>
  Modelled from the spec: the explicit close of the Loaded Module (\<^verbatim>\<open>Module.Close\<close>),
  section 3, which releases the engine-side resources of the module.
\<close>

definition spec_ModuleClose :: "ref \<Rightarrow> world_state \<Rightarrow> world_state" where
  "spec_ModuleClose m w = w\<lparr>modules := (modules w)(m := None)\<rparr>"

text \<open>
  Modelled from the spec: the collaborators together, as the bridge functions take them.
\<close>

definition spec_wapc :: "(bytes \<Rightarrow> guest option) \<Rightarrow> (world_state, unit, error) wapc" where
  "spec_wapc compile =
     \<lparr>ioutil_ReadFile = spec_ReadFile,
      engine_New = spec_New compile,
      wapc_NewPool = spec_NewPool,
      Pool_Get = spec_Get,
      Pool_Return = spec_Return,
      Pool_Close = spec_PoolClose,
      Instance_Invoke = spec_Invoke,
      Module_Close = spec_ModuleClose,
      error_Error = error_string\<rparr>"

subsection \<open>A concrete guest and concrete worlds\<close>

text \<open>The guest knows one operation, \<open>echo\<close>, which answers with its payload.\<close>

definition echo_guest :: guest where
  "echo_guest operation payload = (if operation = ''echo'' then Some (Inr payload) else None)"

text \<open>The engine accepts bytecode that starts with the WebAssembly magic number.\<close>

definition echo_compile :: "bytes \<Rightarrow> guest option" where
  "echo_compile b = (if take 4 b = [0x00, 0x61, 0x73, 0x6D] then Some echo_guest else None)"

definition echo_wasm :: bytes where
  "echo_wasm = [0x00, 0x61, 0x73, 0x6D, 0x01, 0x00, 0x00, 0x00]"

definition ping :: bytes where
  "ping = [0x70, 0x69, 0x6E, 0x67]"

text \<open>
  A disk with the guest's bytecode in \<open>echo.wasm\<close> and something else in \<open>junk.wasm\<close>,
  no module loaded yet, and an engine able to instantiate \<open>n\<close> instances.
\<close>

definition disk :: "string \<Rightarrow> bytes option" where
  "disk f = (if f = ''echo.wasm'' then Some echo_wasm
             else if f = ''junk.wasm'' then Some ping
             else None)"

definition fresh_world :: "nat \<Rightarrow> world_state" where
  "fresh_world n =
     \<lparr>files = disk, modules = (\<lambda>_. None), instances = (\<lambda>_. None),
      pools = (\<lambda>_. no_pool), next_ref = 0, instantiable = n\<rparr>"

text \<open>
  The bridge over module \<open>2\<close> and pool \<open>5\<close>, and the world in which that pool holds the
  two instances \<open>3\<close> and \<open>4\<close> of the echo guest: what the constructor builds from
  reference \<open>2\<close> on, with a pool of two for brevity.
\<close>

definition echo_bridge :: WasmGuest where
  "echo_bridge = \<lparr>wapcModule = 2, wapcPool = 5\<rparr>"

definition echo_pools :: "ref list \<Rightarrow> ref list \<Rightarrow> ref \<Rightarrow> pool" where
  "echo_pools av out =
     (\<lambda>_. no_pool)(5 := \<lparr>capacity = 2, available = av, checked_out = out, closed = False\<rparr>)"

definition echo_world :: world_state where
  "echo_world =
     \<lparr>files = disk,
      modules = (\<lambda>_. None)(2 \<mapsto> echo_guest),
      instances = (\<lambda>_. None)(3 \<mapsto> echo_guest, 4 \<mapsto> echo_guest),
      pools = echo_pools [3, 4] [],
      next_ref = 6,
      instantiable = 0\<rparr>"

text \<open>The same world while instance \<open>3\<close> is checked out, and after it has come back.\<close>

definition held_world :: world_state where
  "held_world = echo_world\<lparr>pools := echo_pools [4] [3]\<rparr>"

definition returned_world :: world_state where
  "returned_world = echo_world\<lparr>pools := echo_pools [4, 3] []\<rparr>"

text \<open>The same world with both instances checked out by other callers.\<close>

definition busy_world :: world_state where
  "busy_world = echo_world\<lparr>pools := echo_pools [] [3, 4]\<rparr>"

text \<open>The collaborators over that engine.\<close>

definition echo_wapc :: "(world_state, unit, error) wapc" where
  "echo_wapc = spec_wapc echo_compile"

text \<open>Collaborators whose pool refuses every return.\<close>

definition refusing_wapc :: "(world_state, unit, error) wapc" where
  "refusing_wapc = echo_wapc\<lparr>Pool_Return := (\<lambda>p i w. (Some ReleaseError, w))\<rparr>"

section \<open>Concurrent callers\<close>

text \<open>
  Several callers run InvokeWasmOperation on the same bridge at once. The pool's
  bookkeeping is guarded by one synchronisation discipline (section 5 of the
  specification), so each call into a collaborator is one atomic step on the shared
  world, and a concurrent execution is an interleaving of the callers' steps. A call
  goes through the function's three calls in program order: it waits for \<open>Get\<close>,
  holds the instance \<open>Get\<close> returned, has executed the guest and holds the named
  results of the \<^verbatim>\<open>return\<close> statement, and has finished with what the deferred closure
  left in them.
\<close>

datatype 'e call =
    Waiting
  | Holding ref
  | Executed ref "bytes option \<times> 'e option"
  | Finished "bytes option \<times> 'e option"

text \<open>The instance a call has been granted and has not yet returned.\<close>

fun holding :: "'e call \<Rightarrow> ref option" where
  "holding (Holding i) = Some i"
| "holding (Executed i named) = Some i"
| "holding Waiting = None"
| "holding (Finished named) = None"

text \<open>
  \<open>Acquire t\<close> is the moment \<open>Get\<close> returns to caller \<open>t\<close> (a caller blocked in \<open>Get\<close>
  is one whose step the schedule places later), \<open>Exec t\<close> its guest execution,
  \<open>Release t\<close> its deferred closure, \<open>Shut\<close> a call of Close by anyone.
\<close>

datatype action = Acquire nat | Exec nat | Release nat | Shut

text \<open>
  One step of the interleaving; \<open>reqs t\<close> is the operation and payload of caller \<open>t\<close>.
  A step that is not the caller's next one changes nothing.
\<close>

fun step ::
  "('w, 'h, 'e) wapc \<Rightarrow> WasmGuest \<Rightarrow> (nat \<Rightarrow> string \<times> bytes) \<Rightarrow> action
     \<Rightarrow> 'w \<times> (nat \<Rightarrow> 'e call) \<Rightarrow> 'w \<times> (nat \<Rightarrow> 'e call)" where
  "step E wg reqs (Acquire t) (w, cs) =
     (case cs t of
        Waiting \<Rightarrow>
          (case Pool_Get E (wapcPool wg) (10 * Millisecond) w of
             (Inl err, w1) \<Rightarrow> (w1, cs(t := Finished (None, Some err)))
           | (Inr wapcInstance, w1) \<Rightarrow> (w1, cs(t := Holding wapcInstance)))
      | _ \<Rightarrow> (w, cs))"
| "step E wg reqs (Exec t) (w, cs) =
     (case cs t of
        Holding wapcInstance \<Rightarrow>
          (case Instance_Invoke E wapcInstance (fst (reqs t)) (snd (reqs t)) w of
             (Inl err, w2) \<Rightarrow> (w2, cs(t := Executed wapcInstance (None, Some err)))
           | (Inr result, w2) \<Rightarrow> (w2, cs(t := Executed wapcInstance (Some result, None))))
      | _ \<Rightarrow> (w, cs))"
| "step E wg reqs (Release t) (w, cs) =
     (case cs t of
        Executed wapcInstance named \<Rightarrow>
          (case deferred_Return E wg wapcInstance named w of
             (named', tr, w3) \<Rightarrow> (w3, cs(t := Finished named')))
      | _ \<Rightarrow> (w, cs))"
| "step E wg reqs Shut (w, cs) = (world (Close E wg w), cs)"

text \<open>A schedule is run from the left; at the start every caller is waiting.\<close>

definition run ::
  "('w, 'h, 'e) wapc \<Rightarrow> WasmGuest \<Rightarrow> (nat \<Rightarrow> string \<times> bytes) \<Rightarrow> action list
     \<Rightarrow> 'w \<times> (nat \<Rightarrow> 'e call) \<Rightarrow> 'w \<times> (nat \<Rightarrow> 'e call)" where
  "run E wg reqs sched c = fold (step E wg reqs) sched c"

definition all_waiting :: "nat \<Rightarrow> 'e call" where
  "all_waiting = (\<lambda>t. Waiting)"

text \<open>
  What the interleaving keeps true of the bridge's pool: no instance is listed twice
  among the available and the checked-out ones, every instance a call holds is checked
  out, and no two calls hold the same one.
\<close>

definition pool_inv :: "ref \<Rightarrow> world_state \<times> (nat \<Rightarrow> 'e call) \<Rightarrow> bool" where
  "pool_inv p c =
     (distinct (available (pools (fst c) p) @ checked_out (pools (fst c) p))
      \<and> (\<forall>t i. holding (snd c t) = Some i \<longrightarrow> i \<in> set (checked_out (pools (fst c) p)))
      \<and> (\<forall>t t' i. holding (snd c t) = Some i \<and> holding (snd c t') = Some i \<longrightarrow> t = t'))"

text \<open>Every caller sends the same request, \<open>echo\<close> of \<open>ping\<close>.\<close>

definition echo_reqs :: "nat \<Rightarrow> string \<times> bytes" where
  "echo_reqs t = (''echo'', ping)"

section \<open>Properties\<close>

subsection \<open>The paths through InvokeWasmOperation\<close>

lemma calls_simps [simp]:
  "calls [] = []"
  "calls (Printf s # tr) = calls tr"
  "calls (Call_Get p d # tr) = Call_Get p d # calls tr"
  "calls (Call_Invoke i operation payload # tr) = Call_Invoke i operation payload # calls tr"
  "calls (Call_Return p i # tr) = Call_Return p i # calls tr"
  "calls (tr @ tr') = calls tr @ calls tr'"
  "calls (Call_ReadFile f # tr) = Call_ReadFile f # calls tr"
  "calls (Call_New b # tr) = Call_New b # calls tr"
  "calls (Call_NewPool m n # tr) = Call_NewPool m n # calls tr"
  "calls (Call_PoolClose p # tr) = Call_PoolClose p # calls tr"
  "calls (Call_ModuleClose m # tr) = Call_ModuleClose m # calls tr"
  by (simp_all add: calls_def)

lemma deferred_Return_eq:
  assumes "Pool_Return E (wapcPool wg) i w = (r, w')"
  shows "deferred_Return E wg i named w =
     ((fst named, r),
      [Printf ''[host] Returning waPC Instance'', Call_Return (wapcPool wg) i]
      @ (case r of None \<Rightarrow> []
         | Some e \<Rightarrow> [Printf (''[host] error returning waPC instance: '' @ error_Error E e)]),
      w')"
  using assms by (simp add: deferred_Return_def)

lemma InvokeWasmOperation_Get_fails:
  assumes "Pool_Get E (wapcPool wg) (10 * Millisecond) w = (Inl e, w1)"
  shows "InvokeWasmOperation E wg operation payload w =
     ((None, Some e),
      [Printf ''[host] Getting waPC Instance'',
       Call_Get (wapcPool wg) (10 * Millisecond),
       Printf (''[host] error getting waPC instance: '' @ error_Error E e)],
      w1)"
  using assms by (simp add: InvokeWasmOperation_def)

lemma InvokeWasmOperation_guest_fails:
  assumes "Pool_Get E (wapcPool wg) (10 * Millisecond) w = (Inr i, w1)"
    and "Instance_Invoke E i operation payload w1 = (Inl e, w2)"
    and "Pool_Return E (wapcPool wg) i w2 = (r, w3)"
  shows "InvokeWasmOperation E wg operation payload w =
     ((None, r),
      [Printf ''[host] Getting waPC Instance'',
       Call_Get (wapcPool wg) (10 * Millisecond),
       Printf (''[host] Invoking operation '' @ operation),
       Call_Invoke i operation payload,
       Printf (''[host] error invoking transaction: '' @ error_Error E e),
       Printf ''[host] Returning waPC Instance'',
       Call_Return (wapcPool wg) i]
      @ (case r of None \<Rightarrow> []
         | Some e' \<Rightarrow> [Printf (''[host] error returning waPC instance: '' @ error_Error E e')]),
      w3)"
  using assms by (simp add: InvokeWasmOperation_def deferred_Return_eq)

lemma InvokeWasmOperation_guest_succeeds:
  assumes "Pool_Get E (wapcPool wg) (10 * Millisecond) w = (Inr i, w1)"
    and "Instance_Invoke E i operation payload w1 = (Inr b, w2)"
    and "Pool_Return E (wapcPool wg) i w2 = (r, w3)"
  shows "InvokeWasmOperation E wg operation payload w =
     ((Some b, r),
      [Printf ''[host] Getting waPC Instance'',
       Call_Get (wapcPool wg) (10 * Millisecond),
       Printf (''[host] Invoking operation '' @ operation),
       Call_Invoke i operation payload,
       Printf ''[host] Returning waPC Instance'',
       Call_Return (wapcPool wg) i]
      @ (case r of None \<Rightarrow> []
         | Some e' \<Rightarrow> [Printf (''[host] error returning waPC instance: '' @ error_Error E e')]),
      w3)"
  using assms by (simp add: InvokeWasmOperation_def deferred_Return_eq)

subsection \<open>The concrete collaborators, evaluated\<close>

lemma spec_simps [simp]:
  "Pool_Get (spec_wapc c) = spec_Get"
  "Pool_Return (spec_wapc c) = spec_Return"
  "Pool_Close (spec_wapc c) = spec_PoolClose"
  "Instance_Invoke (spec_wapc c) = spec_Invoke"
  "Module_Close (spec_wapc c) = spec_ModuleClose"
  "ioutil_ReadFile (spec_wapc c) = spec_ReadFile"
  "engine_New (spec_wapc c) = spec_New c"
  "wapc_NewPool (spec_wapc c) = spec_NewPool"
  "error_Error (spec_wapc c) = error_string"
  by (simp_all add: spec_wapc_def)

lemma echo_simps [simp]:
  "Pool_Get echo_wapc = spec_Get"
  "Pool_Return echo_wapc = spec_Return"
  "Pool_Close echo_wapc = spec_PoolClose"
  "Instance_Invoke echo_wapc = spec_Invoke"
  "Module_Close echo_wapc = spec_ModuleClose"
  "ioutil_ReadFile echo_wapc = spec_ReadFile"
  "engine_New echo_wapc = spec_New echo_compile"
  "wapc_NewPool echo_wapc = spec_NewPool"
  "error_Error echo_wapc = error_string"
  by (simp_all add: echo_wapc_def)

lemma refusing_simps [simp]:
  "Pool_Get refusing_wapc = spec_Get"
  "Pool_Return refusing_wapc = (\<lambda>p i w. (Some ReleaseError, w))"
  "Instance_Invoke refusing_wapc = spec_Invoke"
  "error_Error refusing_wapc = error_string"
  by (simp_all add: refusing_wapc_def)

lemma echo_pools_5 [simp]:
  "echo_pools av out 5 = \<lparr>capacity = 2, available = av, checked_out = out, closed = False\<rparr>"
  by (simp add: echo_pools_def)

lemma echo_pools_upd [simp]:
  "(echo_pools av out)(5 := \<lparr>capacity = 2, available = av', checked_out = out', closed = False\<rparr>)
   = echo_pools av' out'"
  by (simp add: echo_pools_def)

lemma echo_Get: "spec_Get 5 d echo_world = (Inr 3, held_world)"
  by (simp add: spec_Get_def echo_world_def held_world_def)

lemma echo_Invoke_echo: "spec_Invoke 3 ''echo'' payload held_world = (Inr payload, held_world)"
  by (simp add: spec_Invoke_def echo_world_def held_world_def echo_guest_def)

lemma echo_Invoke_nope:
  "spec_Invoke 3 ''nope'' payload held_world =
     (Inl (InvocationError ''nope'' ''unknown operation''), held_world)"
  by (simp add: spec_Invoke_def echo_world_def held_world_def echo_guest_def)

lemma echo_Return: "spec_Return 5 3 held_world = (None, returned_world)"
  by (simp add: spec_Return_def echo_world_def held_world_def returned_world_def)

lemma echo_wapc_Get:
  "Pool_Get echo_wapc (wapcPool echo_bridge) (10 * Millisecond) echo_world = (Inr 3, held_world)"
  by (simp add: echo_Get echo_bridge_def)

lemma refusing_wapc_Get:
  "Pool_Get refusing_wapc (wapcPool echo_bridge) (10 * Millisecond) echo_world =
     (Inr 3, held_world)"
  by (simp add: echo_Get echo_bridge_def)

lemma echo_wapc_Invoke_nope:
  "Instance_Invoke echo_wapc 3 ''nope'' payload held_world =
     (Inl (InvocationError ''nope'' ''unknown operation''), held_world)"
  by (simp add: echo_Invoke_nope)

lemma echo_wapc_Return:
  "Pool_Return echo_wapc (wapcPool echo_bridge) 3 held_world = (None, returned_world)"
  by (simp add: echo_Return echo_bridge_def)

lemma refusing_wapc_Invoke_echo:
  "Instance_Invoke refusing_wapc 3 ''echo'' payload held_world = (Inr payload, held_world)"
  by (simp add: echo_Invoke_echo)

lemma refusing_wapc_Return:
  "Pool_Return refusing_wapc (wapcPool echo_bridge) 3 held_world = (Some ReleaseError, held_world)"
  by simp

lemma busy_Get: "spec_Get 5 d busy_world = (Inl TimeoutError, busy_world)"
  by (simp add: spec_Get_def busy_world_def)

lemma echo_wapc_busy_Get:
  "Pool_Get echo_wapc (wapcPool echo_bridge) (10 * Millisecond) busy_world =
     (Inl TimeoutError, busy_world)"
  by (simp add: busy_Get echo_bridge_def)

subsection \<open>A closed pool\<close>

lemma pools_fold_teardown [simp]: "pools (fold teardown xs w) = pools w"
  by (induction xs arbitrary: w) (simp_all add: teardown_def)

lemma closed_after_Close:
  "closed (pools (world (Close (spec_wapc c) wg w)) (wapcPool wg))"
  by (simp add: Close_def world_def spec_ModuleClose_def spec_PoolClose_def)

lemma InvokeWasmOperation_closed:
  assumes "closed (pools w (wapcPool wg))"
  shows "InvokeWasmOperation (spec_wapc c) wg operation payload w =
     ((None, Some ClosedError),
      [Printf ''[host] Getting waPC Instance'',
       Call_Get (wapcPool wg) (10 * Millisecond),
       Printf ''[host] error getting waPC instance: closed error''],
      w)"
proof -
  from assms
  have "Pool_Get (spec_wapc c) (wapcPool wg) (10 * Millisecond) w = (Inl ClosedError, w)"
    by (simp add: spec_Get_def)
  from InvokeWasmOperation_Get_fails [OF this] show ?thesis by simp
qed

lemma invoke_all_closed:
  assumes "closed (pools w (wapcPool wg))"
  shows "results (invoke_all (spec_wapc c) wg reqs w) =
           replicate (length reqs) (None, Some ClosedError)
       \<and> calls (trace (invoke_all (spec_wapc c) wg reqs w)) =
           replicate (length reqs) (Call_Get (wapcPool wg) (10 * Millisecond))
       \<and> world (invoke_all (spec_wapc c) wg reqs w) = w"
  using assms
  by (induction reqs) (auto simp: InvokeWasmOperation_closed results_def trace_def world_def
      split: prod.splits)

subsection \<open>Interleaved callers on the pool of the specification\<close>

text \<open>
  The three steps of one caller, run without interruption, are InvokeWasmOperation;
  every step of every caller keeps \<open>pool_inv\<close>; and the pool the constructor builds
  satisfies it.
\<close>

lemma pool_inv_held:
  "pool_inv p (w, cs) \<Longrightarrow> holding (cs t) = Some i \<Longrightarrow> i \<in> set (checked_out (pools w p))"
  by (simp add: pool_inv_def)

lemma pool_inv_same:
  "pool_inv p (w, cs) \<Longrightarrow> holding (cs t) = Some i \<Longrightarrow> holding (cs t') = Some i \<Longrightarrow> t = t'"
  by (auto simp: pool_inv_def)

lemma pool_inv_distinct:
  "pool_inv p (w, cs) \<Longrightarrow> distinct (available (pools w p) @ checked_out (pools w p))"
  by (simp add: pool_inv_def)

lemma pool_inv_Acquire:
  assumes inv: "pool_inv (wapcPool wg) (w, cs)"
  shows "pool_inv (wapcPool wg) (step (spec_wapc cmp) wg reqs (Acquire t) (w, cs))"
proof (cases "cs t = Waiting \<and> \<not> closed (pools w (wapcPool wg))
              \<and> available (pools w (wapcPool wg)) \<noteq> []")
  case False
  have "pool_inv (wapcPool wg) (w, cs(t := Finished named))" for named :: "bytes option \<times> error option"
    using inv by (auto simp: pool_inv_def)
  with False inv show ?thesis
    by (auto simp: spec_Get_def split: call.splits list.splits)
next
  case True
  then obtain i rest where av: "available (pools w (wapcPool wg)) = i # rest"
    by (cases "available (pools w (wapcPool wg))") auto
  from pool_inv_distinct [OF inv] av
  have fresh: "i \<notin> set (checked_out (pools w (wapcPool wg)))"
    and d: "distinct (rest @ i # checked_out (pools w (wapcPool wg)))"
    by auto
  have nobody: "holding (cs t') \<noteq> Some i" for t'
    using pool_inv_held [OF inv, of t' i] fresh by blast
  from True av have st: "step (spec_wapc cmp) wg reqs (Acquire t) (w, cs) =
     (w\<lparr>pools := (pools w)
          (wapcPool wg := (pools w (wapcPool wg))
             \<lparr>available := rest, checked_out := i # checked_out (pools w (wapcPool wg))\<rparr>)\<rparr>,
      cs(t := Holding i))"
    by (simp add: spec_Get_def)
  show ?thesis
    unfolding st pool_inv_def
    using d nobody pool_inv_held [OF inv] pool_inv_same [OF inv] True
    by (auto split: if_splits)
qed

lemma pool_inv_same_holding:
  assumes inv: "pool_inv p (w, cs)" and same: "holding c' = holding (cs t)"
  shows "pool_inv p (w, cs(t := c'))"
proof -
  from same have eq: "holding ((cs(t := c')) u) = holding (cs u)" for u by simp
  from inv show ?thesis
    unfolding pool_inv_def fst_conv snd_conv eq .
qed

lemma pool_inv_Exec:
  assumes inv: "pool_inv (wapcPool wg) (w, cs)"
  shows "pool_inv (wapcPool wg) (step (spec_wapc cmp) wg reqs (Exec t) (w, cs))"
proof (cases "cs t")
  case (Holding i)
  have keep: "pool_inv (wapcPool wg) (w, cs(t := Executed i named))"
    for named :: "bytes option \<times> error option"
    using pool_inv_same_holding [OF inv, of "Executed i named" t] Holding by simp
  from Holding show ?thesis
    by (auto simp: spec_Invoke_def keep split: option.splits sum.splits)
qed (use inv in simp_all)

lemma pool_inv_Release:
  assumes inv: "pool_inv (wapcPool wg) (w, cs)"
  shows "pool_inv (wapcPool wg) (step (spec_wapc cmp) wg reqs (Release t) (w, cs))"
proof (cases "cs t")
  case (Executed i named)
  let ?P = "pools w (wapcPool wg)"
  from pool_inv_held [OF inv, of t i] Executed have mem: "i \<in> set (checked_out ?P)" by simp
  from pool_inv_distinct [OF inv] mem
  have d1: "distinct (available ?P @ remove1 i (checked_out ?P))"
    and d2: "distinct ((available ?P @ [i]) @ remove1 i (checked_out ?P))"
    by auto
  have others: "i' \<in> set (remove1 i (checked_out ?P))"
    if "holding (cs t') = Some i'" "t' \<noteq> t" for t' i'
  proof -
    from pool_inv_same [OF inv, of t' i' t] that Executed have "i' \<noteq> i" by auto
    with pool_inv_held [OF inv that(1)] show ?thesis by simp
  qed
  show ?thesis
    unfolding pool_inv_def
    using Executed mem d1 d2 others pool_inv_same [OF inv]
    by (auto simp: deferred_Return_def spec_Return_def teardown_def split: if_splits)
qed (use inv in simp_all)

lemma pool_inv_Shut:
  assumes inv: "pool_inv (wapcPool wg) (w, cs)"
  shows "pool_inv (wapcPool wg) (step (spec_wapc cmp) wg reqs Shut (w, cs))"
  using inv
  by (simp add: pool_inv_def Close_def world_def spec_ModuleClose_def spec_PoolClose_def)

lemma step_pool_inv:
  assumes "pool_inv (wapcPool wg) c"
  shows "pool_inv (wapcPool wg) (step (spec_wapc cmp) wg reqs a c)"
  using assms
  by (cases c; cases a) (simp_all only: pool_inv_Acquire pool_inv_Exec pool_inv_Release pool_inv_Shut)

lemma run_pool_inv:
  assumes "pool_inv (wapcPool wg) c"
  shows "pool_inv (wapcPool wg) (run (spec_wapc cmp) wg reqs sched c)"
  using assms unfolding run_def
  by (induction sched arbitrary: c) (simp_all add: step_pool_inv)


lemma pool_inv_start:
  assumes "distinct (available (pools w p) @ checked_out (pools w p))"
  shows "pool_inv p (w, all_waiting)"
  using assms by (simp add: pool_inv_def all_waiting_def)

lemma run_from_waiting:
  assumes "distinct (available (pools w (wapcPool wg)) @ checked_out (pools w (wapcPool wg)))"
  shows "pool_inv (wapcPool wg) (run (spec_wapc cmp) wg reqs sched (w, all_waiting))"
  using run_pool_inv [OF pool_inv_start [OF assms]] .

lemma spec_Instantiate_ref:
  assumes "spec_Instantiate m w = (Some i, w1)"
  shows "i = next_ref w \<and> next_ref w1 = Suc (next_ref w)"
  using assms by (auto simp: spec_Instantiate_def split: option.splits if_splits)

lemma instantiate_all_refs:
  assumes "instantiate_all m n w = (Some is, w')"
  shows "is = [next_ref w ..< next_ref w + n] \<and> next_ref w' = next_ref w + n"
  using assms
proof (induction n arbitrary: w "is" w')
  case 0
  then show ?case by simp
next
  case (Suc n)
  from Suc.prems obtain i w1 is' where
    inst: "spec_Instantiate m w = (Some i, w1)"
    and rest: "instantiate_all m n w1 = (Some is', w')"
    and "is": "is = i # is'"
    by (auto split: prod.splits option.splits)
  from spec_Instantiate_ref [OF inst] Suc.IH [OF rest] "is"
  show ?case by (simp add: upt_conv_Cons)
qed

lemma spec_NewPool_distinct:
  assumes "spec_NewPool m n w = (Inr p, w')"
  shows "distinct (available (pools w' p) @ checked_out (pools w' p))"
proof (cases "instantiate_all m n w")
  case (Pair r w1)
  show ?thesis
  proof (cases r)
    case None
    with Pair assms show ?thesis by (simp add: spec_NewPool_def)
  next
    case (Some "is")
    with Pair instantiate_all_refs [of m n w "is" w1]
    have "distinct is" by simp
    with Some Pair assms show ?thesis by (auto simp: spec_NewPool_def)
  qed
qed

lemma NewWasmGuest_NewPool:
  assumes "results (NewWasmGuest E wasmFile FabricCall w0) = Inr wg"
  shows "\<exists>w2. wapc_NewPool E (wapcModule wg) 10 w2 =
           (Inr (wapcPool wg), world (NewWasmGuest E wasmFile FabricCall w0))"
  using assms
  by (auto simp: NewWasmGuest_def results_def world_def split: prod.splits sum.splits)

lemma NewWasmGuest_pool_distinct:
  assumes "results (NewWasmGuest (spec_wapc cmp) wasmFile FabricCall w0) = Inr wg"
  shows "distinct (available (pools (world (NewWasmGuest (spec_wapc cmp) wasmFile FabricCall w0))
                     (wapcPool wg))
                   @ checked_out (pools (world (NewWasmGuest (spec_wapc cmp) wasmFile FabricCall w0))
                     (wapcPool wg)))"
proof -
  from NewWasmGuest_NewPool [OF assms] obtain w2 where
    "spec_NewPool (wapcModule wg) 10 w2 =
       (Inr (wapcPool wg), world (NewWasmGuest (spec_wapc cmp) wasmFile FabricCall w0))"
    by auto
  from spec_NewPool_distinct [OF this] show ?thesis .
qed

lemma steps_are_InvokeWasmOperation:
  assumes "cs t = Waiting"
  shows "run E wg reqs [Acquire t, Exec t, Release t] (w, cs) =
     (world (InvokeWasmOperation E wg (fst (reqs t)) (snd (reqs t)) w),
      cs(t := Finished (results (InvokeWasmOperation E wg (fst (reqs t)) (snd (reqs t)) w))))"
  using assms
  by (auto simp: run_def InvokeWasmOperation_def results_def world_def
      split: prod.splits sum.splits)

lemma built_bridge_exclusive:
  assumes "results (NewWasmGuest (spec_wapc cmp) wasmFile FabricCall w0) = Inr wg"
    and "run (spec_wapc cmp) wg reqs sched
           (world (NewWasmGuest (spec_wapc cmp) wasmFile FabricCall w0), all_waiting) = (w', cs)"
    and "holding (cs t) = Some i"
    and "t' \<noteq> t"
  shows "holding (cs t') \<noteq> Some i"
proof -
  from run_from_waiting [OF NewWasmGuest_pool_distinct [OF assms(1)],
      where reqs = reqs and sched = sched and cmp = cmp] assms(2)
  have inv: "pool_inv (wapcPool wg) (w', cs)" by simp
  from pool_inv_same [OF inv assms(3), of t'] assms(4) show ?thesis by blast
qed

section \<open>The claims\<close>

text \<open>
  C1. For every call to InvokeWasmOperation in which the pool acquisition succeeds, the
  acquired instance is returned to the pool exactly once before the function returns,
  whether the guest execution succeeds or fails: the calls the function makes are
  \<open>Get\<close>, \<open>Invoke\<close> on the acquired instance and \<open>Return\<close> of that instance, in this
  order and nothing else; the trace holds one \<open>Return\<close> call; and the world the caller
  gets back is the one \<open>Return\<close> produced from the world the guest execution left.
\<close>

theorem InvokeWasmOperation_returns_instance_once:
  assumes "Pool_Get E (wapcPool wg) (10 * Millisecond) w = (Inr i, w1)"
  shows "calls (trace (InvokeWasmOperation E wg operation payload w)) =
           [Call_Get (wapcPool wg) (10 * Millisecond),
            Call_Invoke i operation payload,
            Call_Return (wapcPool wg) i]
         \<and> filter is_Return (trace (InvokeWasmOperation E wg operation payload w)) =
           [Call_Return (wapcPool wg) i]
         \<and> world (InvokeWasmOperation E wg operation payload w) =
           snd (Pool_Return E (wapcPool wg) i (snd (Instance_Invoke E i operation payload w1)))"
proof -
  obtain g w2 where inv: "Instance_Invoke E i operation payload w1 = (g, w2)"
    by (cases "Instance_Invoke E i operation payload w1")
  obtain r w3 where ret: "Pool_Return E (wapcPool wg) i w2 = (r, w3)"
    by (cases "Pool_Return E (wapcPool wg) i w2")
  show ?thesis
  proof (cases g)
    case (Inl e)
    with inv have "Instance_Invoke E i operation payload w1 = (Inl e, w2)" by simp
    from InvokeWasmOperation_guest_fails [OF assms this ret] inv ret
    show ?thesis by (simp add: trace_def world_def split: option.splits)
  next
    case (Inr b)
    with inv have "Instance_Invoke E i operation payload w1 = (Inr b, w2)" by simp
    from InvokeWasmOperation_guest_succeeds [OF assms this ret] inv ret
    show ?thesis by (simp add: trace_def world_def split: option.splits)
  qed
qed

theorem InvokeWasmOperation_returns_instance_once_witness:
  "fst (Pool_Get echo_wapc (wapcPool echo_bridge) (10 * Millisecond) echo_world) = Inr 3
   \<and> filter is_Return
       (trace (InvokeWasmOperation echo_wapc echo_bridge ''nope'' ping echo_world)) =
     [Call_Return 5 3]
   \<and> calls (trace (InvokeWasmOperation echo_wapc echo_bridge ''echo'' ping echo_world)) =
     [Call_Get 5 10000000, Call_Invoke 3 ''echo'' ping, Call_Return 5 3]
   \<and> world (InvokeWasmOperation echo_wapc echo_bridge ''echo'' ping echo_world) = returned_world"
proof (intro conjI)
  show "fst (Pool_Get echo_wapc (wapcPool echo_bridge) (10 * Millisecond) echo_world) = Inr 3"
    by (simp only: echo_wapc_Get fst_conv)
  show "filter is_Return
       (trace (InvokeWasmOperation echo_wapc echo_bridge ''nope'' ping echo_world)) =
     [Call_Return 5 3]"
    using InvokeWasmOperation_returns_instance_once [OF echo_wapc_Get, of "''nope''" ping]
    by (simp add: echo_bridge_def)
  show "calls (trace (InvokeWasmOperation echo_wapc echo_bridge ''echo'' ping echo_world)) =
     [Call_Get 5 10000000, Call_Invoke 3 ''echo'' ping, Call_Return 5 3]"
    using InvokeWasmOperation_returns_instance_once [OF echo_wapc_Get, of "''echo''" ping]
    by (simp add: echo_bridge_def Millisecond_def)
  show "world (InvokeWasmOperation echo_wapc echo_bridge ''echo'' ping echo_world) =
     returned_world"
    using InvokeWasmOperation_returns_instance_once [OF echo_wapc_Get, of "''echo''" ping]
    by (simp add: echo_bridge_def echo_Invoke_echo echo_Return)
qed

text \<open>
  C2, as stated. The claim says that a failed return to the pool leaves the caller with
  the guest's result and no error. The deferred closure assigns the outcome of \<open>Return\<close>
  to the named result \<^verbatim>\<open>err\<close>, so the caller of a successful guest execution whose
  instance the pool refuses to take back receives the result and the error of \<open>Return\<close>.
\<close>

theorem Return_failure_reaches_caller_counterexample:
  "fst (Instance_Invoke refusing_wapc 3 ''echo'' ping
          (snd (Pool_Get refusing_wapc (wapcPool echo_bridge) (10 * Millisecond) echo_world))) =
     Inr ping
   \<and> results (InvokeWasmOperation refusing_wapc echo_bridge ''echo'' ping echo_world) =
     (Some ping, Some ReleaseError)"
  by (simp only: InvokeWasmOperation_guest_succeeds
        [OF refusing_wapc_Get refusing_wapc_Invoke_echo refusing_wapc_Return]
      refusing_wapc_Get refusing_wapc_Invoke_echo results_def fst_conv snd_conv simp_thms)

text \<open>
  C2, amended: when the guest execution produced a result, a failure while returning the
  instance to the pool does not change that result. The caller still receives it; the
  error it receives with it is the outcome of the return to the pool, and a failed
  return is the last line logged.
\<close>

theorem Return_failure_keeps_result:
  assumes "Pool_Get E (wapcPool wg) (10 * Millisecond) w = (Inr i, w1)"
    and "Instance_Invoke E i operation payload w1 = (Inr b, w2)"
  shows "results (InvokeWasmOperation E wg operation payload w) =
           (Some b, fst (Pool_Return E (wapcPool wg) i w2))
         \<and> (\<forall>e. fst (Pool_Return E (wapcPool wg) i w2) = Some e \<longrightarrow>
               last (trace (InvokeWasmOperation E wg operation payload w)) =
                 Printf (''[host] error returning waPC instance: '' @ error_Error E e))"
proof -
  obtain r w3 where ret: "Pool_Return E (wapcPool wg) i w2 = (r, w3)"
    by (cases "Pool_Return E (wapcPool wg) i w2")
  from InvokeWasmOperation_guest_succeeds [OF assms ret] ret
  show ?thesis by (simp add: results_def trace_def)
qed

theorem Return_failure_keeps_result_witness:
  "fst (results (InvokeWasmOperation refusing_wapc echo_bridge ''echo'' ping echo_world)) = Some ping
   \<and> last (trace (InvokeWasmOperation refusing_wapc echo_bridge ''echo'' ping echo_world)) =
       Printf ''[host] error returning waPC instance: release error''"
  using Return_failure_keeps_result [OF refusing_wapc_Get refusing_wapc_Invoke_echo]
  by simp

text \<open>
  C3. The claim: a failed guest execution always reaches the caller as a non-nil error.
  The code at the failing input: the guest does not know the operation \<open>nope\<close>,
  \<open>Invoke\<close> reports it, the function executes \<^verbatim>\<open>return nil, err\<close>, and the deferred
  closure then overwrites \<^verbatim>\<open>err\<close> with the \<^verbatim>\<open>nil\<close> of a successful \<open>Return\<close>: the
  caller receives neither a result nor an error.
\<close>

theorem guest_error_is_swallowed:
  "fst (Instance_Invoke echo_wapc 3 ''nope'' ping
          (snd (Pool_Get echo_wapc (wapcPool echo_bridge) (10 * Millisecond) echo_world))) =
     Inl (InvocationError ''nope'' ''unknown operation'')
   \<and> fst (Pool_Return echo_wapc (wapcPool echo_bridge) 3 held_world) = None
   \<and> results (InvokeWasmOperation echo_wapc echo_bridge ''nope'' ping echo_world) = (None, None)"
  by (simp only: InvokeWasmOperation_guest_fails
        [OF echo_wapc_Get echo_wapc_Invoke_nope echo_wapc_Return]
      echo_wapc_Get echo_wapc_Invoke_nope echo_wapc_Return results_def fst_conv snd_conv simp_thms)

text \<open>
  C4. The claim: when the pool cannot be built, the module compiled before is not left
  allocated. The code at the failing input: the file holds valid bytecode, the engine
  compiles it to module \<open>0\<close> and can instantiate nine instances, the tenth fails. The
  constructor returns the pool's error after the three calls below, none of which
  closes the module, and module \<open>0\<close> is still loaded in the world it leaves.
\<close>

theorem module_stays_loaded_when_pool_fails:
  "results (NewWasmGuest echo_wapc ''echo.wasm'' () (fresh_world 9)) = Inl PoolInitError
   \<and> trace (NewWasmGuest echo_wapc ''echo.wasm'' () (fresh_world 9)) =
       [Call_ReadFile ''echo.wasm'', Call_New echo_wasm, Call_NewPool 0 10]
   \<and> modules (world (NewWasmGuest echo_wapc ''echo.wasm'' () (fresh_world 9))) 0 \<noteq> None"
  by code_simp

text \<open>
  C5, as stated. The claim says the pool has the capacity the caller supplies. The
  constructor has no such parameter: a caller who wants a pool of two gets a pool of
  ten.
\<close>

theorem capacity_is_not_the_callers_counterexample:
  "results (NewWasmGuest echo_wapc ''echo.wasm'' () (fresh_world 12)) =
     Inr \<lparr>wapcModule = 0, wapcPool = 11\<rparr>
   \<and> trace (NewWasmGuest echo_wapc ''echo.wasm'' () (fresh_world 12)) =
       [Call_ReadFile ''echo.wasm'', Call_New echo_wasm, Call_NewPool 0 10]
   \<and> capacity (pools (world (NewWasmGuest echo_wapc ''echo.wasm'' () (fresh_world 12))) 11) = 10
   \<and> capacity (pools (world (NewWasmGuest echo_wapc ''echo.wasm'' () (fresh_world 12))) 11) \<noteq> 2"
  by code_simp

text \<open>
  C5, amended: construction takes no capacity parameter. It never asks for a pool of
  any size but the fixed ten, and whenever it succeeds it has asked for exactly one
  pool, of size ten, over the module of the bridge it returns.
\<close>

theorem NewWasmGuest_pool_size:
  "(\<forall>m n. Call_NewPool m n \<in> set (trace (NewWasmGuest E wasmFile FabricCall w)) \<longrightarrow> n = 10)
   \<and> (\<forall>wg. results (NewWasmGuest E wasmFile FabricCall w) = Inr wg \<longrightarrow>
         filter is_NewPool (trace (NewWasmGuest E wasmFile FabricCall w)) =
           [Call_NewPool (wapcModule wg) 10])"
  by (auto simp: NewWasmGuest_def results_def trace_def split: prod.splits sum.splits)

theorem NewWasmGuest_pool_size_witness:
  "results (NewWasmGuest echo_wapc ''echo.wasm'' () (fresh_world 12)) =
     Inr \<lparr>wapcModule = 0, wapcPool = 11\<rparr>
   \<and> filter is_NewPool (trace (NewWasmGuest echo_wapc ''echo.wasm'' () (fresh_world 12))) =
       [Call_NewPool 0 10]
   \<and> available (pools (world (NewWasmGuest echo_wapc ''echo.wasm'' () (fresh_world 12))) 11) =
       [1, 2, 3, 4, 5, 6, 7, 8, 9, 10]"
proof -
  have r: "results (NewWasmGuest echo_wapc ''echo.wasm'' () (fresh_world 12)) =
     Inr \<lparr>wapcModule = 0, wapcPool = 11\<rparr>"
    by code_simp
  have a: "available (pools (world (NewWasmGuest echo_wapc ''echo.wasm'' () (fresh_world 12))) 11) =
       [1, 2, 3, 4, 5, 6, 7, 8, 9, 10]"
    by code_simp
  from NewWasmGuest_pool_size [of echo_wapc "''echo.wasm''" "()" "fresh_world 12"] r a
  show ?thesis by simp
qed

text \<open>
  C6. Every call asks the pool for an instance exactly once, with the fixed timeout of
  ten milliseconds, so the acquisition waits no longer than \<open>Get\<close> does under that
  timeout. If \<open>Get\<close> fails, the caller receives no result and the very error \<open>Get\<close>
  reported, the function has made no other call (no guest execution, no return), and the
  world is as \<open>Get\<close> left it.
\<close>

theorem Get_failure_is_returned:
  "filter is_Get (trace (InvokeWasmOperation E wg operation payload w)) =
     [Call_Get (wapcPool wg) (10 * Millisecond)]
   \<and> (\<forall>e w1. Pool_Get E (wapcPool wg) (10 * Millisecond) w = (Inl e, w1) \<longrightarrow>
         results (InvokeWasmOperation E wg operation payload w) = (None, Some e)
         \<and> calls (trace (InvokeWasmOperation E wg operation payload w)) =
             [Call_Get (wapcPool wg) (10 * Millisecond)]
         \<and> filter is_Invoke (trace (InvokeWasmOperation E wg operation payload w)) = []
         \<and> world (InvokeWasmOperation E wg operation payload w) = w1)"
proof -
  obtain g w1 where get: "Pool_Get E (wapcPool wg) (10 * Millisecond) w = (g, w1)"
    by (cases "Pool_Get E (wapcPool wg) (10 * Millisecond) w")
  show ?thesis
  proof (cases g)
    case (Inl e)
    with get have "Pool_Get E (wapcPool wg) (10 * Millisecond) w = (Inl e, w1)" by simp
    from InvokeWasmOperation_Get_fails [OF this] this
    show ?thesis by (simp add: results_def trace_def world_def)
  next
    case (Inr i)
    with get have g: "Pool_Get E (wapcPool wg) (10 * Millisecond) w = (Inr i, w1)" by simp
    obtain x w2 where inv: "Instance_Invoke E i operation payload w1 = (x, w2)"
      by (cases "Instance_Invoke E i operation payload w1")
    obtain r w3 where ret: "Pool_Return E (wapcPool wg) i w2 = (r, w3)"
      by (cases "Pool_Return E (wapcPool wg) i w2")
    show ?thesis
    proof (cases x)
      case (Inl e)
      with inv have "Instance_Invoke E i operation payload w1 = (Inl e, w2)" by simp
      from InvokeWasmOperation_guest_fails [OF g this ret] g
      show ?thesis by (simp add: trace_def split: option.splits)
    next
      case (Inr b)
      with inv have "Instance_Invoke E i operation payload w1 = (Inr b, w2)" by simp
      from InvokeWasmOperation_guest_succeeds [OF g this ret] g
      show ?thesis by (simp add: trace_def split: option.splits)
    qed
  qed
qed

theorem Get_failure_is_returned_witness:
  "Pool_Get echo_wapc (wapcPool echo_bridge) (10 * Millisecond) busy_world =
     (Inl TimeoutError, busy_world)
   \<and> results (InvokeWasmOperation echo_wapc echo_bridge ''echo'' ping busy_world) =
     (None, Some TimeoutError)
   \<and> filter is_Invoke (trace (InvokeWasmOperation echo_wapc echo_bridge ''echo'' ping busy_world)) = []
   \<and> filter is_Get (trace (InvokeWasmOperation echo_wapc echo_bridge ''echo'' ping busy_world)) =
     [Call_Get 5 10000000]
   \<and> TimeoutError \<noteq> ClosedError"
  using Get_failure_is_returned [of echo_wapc echo_bridge "''echo''" ping busy_world]
    echo_wapc_busy_Get
  by (simp add: echo_bridge_def Millisecond_def)

text \<open>
  C7. Over the pool of the specification: once Close has completed, every later call to
  InvokeWasmOperation, however many follow, returns no result and \<open>ClosedError\<close>; each
  makes the one call \<open>Get\<close>, which comes back at once, and the world stays the one Close
  left.
\<close>

theorem InvokeWasmOperation_after_Close:
  "results (invoke_all (spec_wapc c) wg reqs (world (Close (spec_wapc c) wg w))) =
     replicate (length reqs) (None, Some ClosedError)
   \<and> calls (trace (invoke_all (spec_wapc c) wg reqs (world (Close (spec_wapc c) wg w)))) =
     replicate (length reqs) (Call_Get (wapcPool wg) (10 * Millisecond))
   \<and> world (invoke_all (spec_wapc c) wg reqs (world (Close (spec_wapc c) wg w))) =
     world (Close (spec_wapc c) wg w)"
  using invoke_all_closed [OF closed_after_Close] .

theorem InvokeWasmOperation_after_Close_witness:
  "results (invoke_all echo_wapc echo_bridge [(''echo'', ping), (''nope'', [])]
              (world (Close echo_wapc echo_bridge echo_world))) =
     [(None, Some ClosedError), (None, Some ClosedError)]"
  using InvokeWasmOperation_after_Close
    [of echo_compile echo_bridge "[(''echo'', ping), (''nope'', [])]" echo_world]
  by (simp add: echo_wapc_def)

text \<open>
  C8. Over the pool of the specification: however the steps of concurrent calls to
  InvokeWasmOperation (and calls of Close) are interleaved on a bridge whose pool lists
  no instance twice, an instance that one call holds, from the moment \<open>Get\<close> granted
  it until its deferred closure has returned it, is held by no other call; it is
  checked out and not available, so no later \<open>Get\<close> can grant it either.
\<close>

theorem concurrent_calls_hold_distinct_instances:
  assumes "distinct (available (pools w (wapcPool wg)) @ checked_out (pools w (wapcPool wg)))"
    and "run (spec_wapc cmp) wg reqs sched (w, all_waiting) = (w', cs)"
    and "holding (cs t) = Some i"
    and "t' \<noteq> t"
  shows "holding (cs t') \<noteq> Some i
         \<and> i \<in> set (checked_out (pools w' (wapcPool wg)))
         \<and> i \<notin> set (available (pools w' (wapcPool wg)))"
proof -
  from run_from_waiting [OF assms(1), of cmp reqs sched] assms(2)
  have inv: "pool_inv (wapcPool wg) (w', cs)" by simp
  from pool_inv_same [OF inv assms(3), of t'] assms(4)
  have "holding (cs t') \<noteq> Some i" by blast
  moreover from pool_inv_held [OF inv assms(3)]
  have "i \<in> set (checked_out (pools w' (wapcPool wg)))" .
  moreover from this pool_inv_distinct [OF inv]
  have "i \<notin> set (available (pools w' (wapcPool wg)))" by auto
  ultimately show ?thesis by blast
qed

theorem concurrent_calls_hold_distinct_instances_witness:
  "distinct (available (pools echo_world (wapcPool echo_bridge))
             @ checked_out (pools echo_world (wapcPool echo_bridge)))
   \<and> holding (snd (run echo_wapc echo_bridge echo_reqs [Acquire 7, Acquire 8, Exec 7, Acquire 9]
                     (echo_world, all_waiting)) 7) = Some 3
   \<and> holding (snd (run echo_wapc echo_bridge echo_reqs [Acquire 7, Acquire 8, Exec 7, Acquire 9]
                     (echo_world, all_waiting)) 8) = Some 4
   \<and> snd (run echo_wapc echo_bridge echo_reqs [Acquire 7, Acquire 8, Exec 7, Acquire 9]
            (echo_world, all_waiting)) 9 = Finished (None, Some TimeoutError)
   \<and> (7::nat) \<noteq> 8
   \<and> holding (snd (run echo_wapc echo_bridge echo_reqs [Acquire 7, Acquire 8, Exec 7, Acquire 9]
                     (echo_world, all_waiting)) 8) \<noteq> Some 3"
proof -
  let ?R = "run (spec_wapc echo_compile) echo_bridge echo_reqs
              [Acquire 7, Acquire 8, Exec 7, Acquire 9] (echo_world, all_waiting)"
  have d: "distinct (available (pools echo_world (wapcPool echo_bridge))
             @ checked_out (pools echo_world (wapcPool echo_bridge)))"
    by code_simp
  have r: "?R = (fst ?R, snd ?R)" by simp
  have h7: "holding (snd ?R 7) = Some 3" by code_simp
  have h8: "holding (snd ?R 8) = Some 4" by code_simp
  have h9: "snd ?R 9 = Finished (None, Some TimeoutError)" by code_simp
  have ne: "(8::nat) \<noteq> 7" by simp
  from concurrent_calls_hold_distinct_instances [OF d r h7 ne] d h7 h8 h9
  show ?thesis by (simp add: echo_wapc_def)
qed

text \<open>
  C9. Every call to Close closes the pool first and the module afterwards: these are
  its two calls, in this order, and the world it leaves is the module's close applied
  to the world the pool's close produced.
\<close>

theorem Close_pool_then_module:
  "calls (trace (Close E wg w)) =
     [Call_PoolClose (wapcPool wg), Call_ModuleClose (wapcModule wg)]
   \<and> world (Close E wg w) = Module_Close E (wapcModule wg) (Pool_Close E (wapcPool wg) w)"
  by (simp add: Close_def trace_def world_def)

text \<open>
  C10. The deferred closure assigns the outcome of \<open>Return\<close> to the named result
  \<^verbatim>\<open>err\<close>: whenever the guest execution succeeds and returning the instance fails, the
  caller receives both the guest's result and the error of \<open>Return\<close>.
\<close>

theorem result_and_Return_error_together:
  assumes "Pool_Get E (wapcPool wg) (10 * Millisecond) w = (Inr i, w1)"
    and "Instance_Invoke E i operation payload w1 = (Inr b, w2)"
    and "Pool_Return E (wapcPool wg) i w2 = (Some e, w3)"
  shows "results (InvokeWasmOperation E wg operation payload w) = (Some b, Some e)"
  using InvokeWasmOperation_guest_succeeds [OF assms] by (simp add: results_def)

theorem result_and_Return_error_together_witness:
  "results (InvokeWasmOperation refusing_wapc echo_bridge ''echo'' ping echo_world) =
     (Some ping, Some ReleaseError)"
  using result_and_Return_error_together
    [OF refusing_wapc_Get refusing_wapc_Invoke_echo refusing_wapc_Return] .

end
